theory Spec2Isabelle
  imports Main
begin

section \<open>The MCP chat client of \<open>client.py\<close>\<close>

text \<open>
  \<open>client.py\<close> defines the class \<open>MCPClient\<close>: \<open>connect_to_server\<close> launches a
  tool-provider process, \<open>process_query\<close> runs one query through the LLM and the
  tools, \<open>chat_loop\<close> reads queries from the terminal. The methods are translated
  below in the order of the source. Everything outside the file (the MCP session,
  the Azure OpenAI client, \<open>json.loads\<close>, \<open>str\<close>, the terminal) is a parameter of
  the model, collected in the record \<open>env\<close>; every call that leaves the process
  is written to a trace of events, so that the calls can be counted and their order
  read off.
\<close>

subsection \<open>Values\<close>

text \<open>
  A JSON value as \<open>json.loads\<close> returns it: \<open>None\<close>, a bool, an int, a str, a list or
  a dict (an association list in key order). Floats are left out; no statement
  below looks inside a value.
\<close>

datatype json =
    JNull
  | JBool bool
  | JInt int
  | JStr string
  | JArr "json list"
  | JObj "(string \<times> json) list"

text \<open>
  Python exceptions as values. The constructors up to \<open>OtherError\<close> are instances of
  \<open>Exception\<close>; \<open>CancelledError\<close> (asyncio), \<open>KeyboardInterrupt\<close> and \<open>SystemExit\<close> derive
  from \<open>BaseException\<close> only. \<open>OtherError\<close> stands for any other instance of
  \<open>Exception\<close> that a collaborator raises, with its message.
\<close>

datatype exn =
    ValueError string
  | JSONDecodeError string
  | UnicodeDecodeError string
  | TypeError string
  | AttributeError string
  | IndexError string
  | KeyError string
  | EOFError
  | OtherError string
  | CancelledError
  | KeyboardInterrupt
  | SystemExit

text \<open>\<open>isinstance(e, Exception)\<close> and \<open>isinstance(e, UnicodeDecodeError)\<close>.\<close>

fun is_Exception :: "exn \<Rightarrow> bool" where
  "is_Exception CancelledError = False"
| "is_Exception KeyboardInterrupt = False"
| "is_Exception SystemExit = False"
| "is_Exception _ = True"

fun is_UnicodeDecodeError :: "exn \<Rightarrow> bool" where
  "is_UnicodeDecodeError (UnicodeDecodeError _) = True"
| "is_UnicodeDecodeError _ = False"

text \<open>\<open>str(e)\<close>, as the f-strings of \<open>chat_loop\<close> print it.\<close>

fun exn_str :: "exn \<Rightarrow> string" where
  "exn_str (ValueError m) = m"
| "exn_str (JSONDecodeError m) = m"
| "exn_str (UnicodeDecodeError m) = m"
| "exn_str (TypeError m) = m"
| "exn_str (AttributeError m) = m"
| "exn_str (IndexError m) = m"
| "exn_str (KeyError k) = [CHR 0x27] @ k @ [CHR 0x27]"
| "exn_str (OtherError m) = m"
| "exn_str _ = []"

subsection \<open>The data of the two collaborators\<close>

text \<open>
  A tool as \<open>session.list_tools()\<close> lists it (\<open>tool.name\<close>, \<open>tool.description\<close>,
  \<open>tool.inputSchema\<close>), and the dict that \<open>process_query\<close> builds from it:
  \<open>{"type": ..., "description": ..., "function": {"name": ..., "parameters": ...}}\<close>.
\<close>

record tool =
  name :: string
  description :: "string option"
  inputSchema :: json

datatype function_dict = FunctionDict (fd_name: string) (fd_parameters: json)

record tool_decl =
  decl_type :: string
  decl_description :: "string option"
  decl_function :: function_dict

text \<open>
  An entry of \<open>messages\<close>, the transcript sent to the LLM: \<open>{"role": ..., "content": ...}\<close>.
  The content is the query or an assistant text, or what a tool returned.
\<close>

datatype content = Text string | Payload json

datatype entry = Entry (entry_role: string) (entry_content: content)

text \<open>
  A completion response: \<open>response.choices\<close>, each with a \<open>message\<close> that has a \<open>role\<close>,
  maybe a \<open>content\<close> attribute (a str or \<open>None\<close>) and \<open>tool_calls\<close> (a list or \<open>None\<close>);
  a tool call has \<open>function.name\<close> and \<open>function.arguments\<close>, the latter a string.
  \<open>hasattr(message, 'content')\<close> is \<open>NoAttr\<close> against \<open>Attr\<close>.
\<close>

datatype 'a attr = NoAttr | Attr 'a

datatype call_function = CallFunction (cf_name: string) (cf_arguments: string)

datatype tool_call = ToolCall (tc_id: string) (tc_function: call_function)

record chat_message =
  msg_role :: string
  msg_content :: "string option attr"
  msg_tool_calls :: "tool_call list option"

datatype choice = Choice (choice_message: chat_message)

datatype completion = Completion (choices: "choice list")

text \<open>
  What \<open>session.call_tool\<close> returns: the \<open>CallToolResult\<close> of the MCP client session,
  an object with the attributes \<open>content\<close> (a list of content blocks) and \<open>isError\<close>.
  It is no mapping: the source subscripts it, \<open>result['content']\<close>, and a subscript
  on such an object raises \<open>TypeError\<close>, whatever the key.
\<close>

datatype tool_result = CallToolResult (result_content: "json list") (result_isError: bool)

definition quoted :: "string \<Rightarrow> string" where
  "quoted s = CHR 0x27 # s @ [CHR 0x27]"

definition getitem :: "tool_result \<Rightarrow> string \<Rightarrow> exn + json" where
  "getitem result key =
     Inl (TypeError (quoted ''CallToolResult'' @ '' object is not subscriptable''))"

subsection \<open>The trace and the environment\<close>

text \<open>
  One event for each call that leaves the process: the request with its arguments.
  \<open>EvCreate ms ts\<close> is \<open>chat.completions.create(messages=ms, tools=ts)\<close>, with
  \<open>None\<close> for a request without the \<open>tools\<close> argument.
\<close>

datatype event =
    EvSpawn string "string list"
  | EvSession
  | EvInitialize
  | EvListTools
  | EvCreate "entry list" "tool_decl list option"
  | EvCallTool string json
  | EvInput string
  | EvPrint string
  | EvPrintTools "string list"

text \<open>
  An answer of a collaborator may depend on everything that happened before, so each
  is a function of the trace up to and including the request. \<open>json_loads\<close> is
  \<open>json.loads\<close> on a str: the value, or the message of the \<open>JSONDecodeError\<close>.
  \<open>str_of\<close> is the text Python's formatting gives a decoded value in an f-string.
\<close>

record env =
  stdio_client :: "event list \<Rightarrow> exn + unit"
  enter_session :: "event list \<Rightarrow> exn + unit"
  initialize :: "event list \<Rightarrow> exn + unit"
  list_tools :: "event list \<Rightarrow> exn + tool list"
  create :: "event list \<Rightarrow> exn + completion"
  call_tool :: "event list \<Rightarrow> exn + tool_result"
  json_loads :: "string \<Rightarrow> string + json"
  str_of :: "json \<Rightarrow> string"

text \<open>
  The fields of \<open>self\<close>: the session (\<open>None\<close> until connected), the transport pair
  \<open>self.stdio, self.write\<close>, and the contexts entered on \<open>self.exit_stack\<close>.
\<close>

datatype transport = StdioTransport string "string list"

datatype client_session = ClientSession transport

datatype resource = ResTransport transport | ResSession client_session

record client =
  session :: "client_session option"
  stdio_write :: "transport option"
  exit_stack :: "resource list"

subsection \<open>Python's string methods\<close>

text \<open>
  A \<open>char\<close> is a code point below 256. \<open>str.isspace\<close> holds there for the code
  points 9 to 13, 28 to 32, 133 and 160; \<open>str.lower\<close> moves A to Z and the capital
  letters of Latin-1 (192 to 222 without 215) up by 32.
\<close>

definition py_isspace :: "char \<Rightarrow> bool" where
  "py_isspace c =
     (let n = (of_char c :: nat)
      in (9 \<le> n \<and> n \<le> 13) \<or> (28 \<le> n \<and> n \<le> 32) \<or> n = 133 \<or> n = 160)"

definition py_strip :: "string \<Rightarrow> string" where
  "py_strip s = rev (dropWhile py_isspace (rev (dropWhile py_isspace s)))"

definition py_lower_char :: "char \<Rightarrow> char" where
  "py_lower_char c =
     (let n = (of_char c :: nat)
      in if (65 \<le> n \<and> n \<le> 90) \<or> (192 \<le> n \<and> n \<le> 222 \<and> n \<noteq> 215)
         then char_of (n + 32) else c)"

definition py_lower :: "string \<Rightarrow> string" where
  "py_lower s = map py_lower_char s"

definition endswith :: "string \<Rightarrow> string \<Rightarrow> bool" where
  "endswith s suffix =
     (length suffix \<le> length s \<and> drop (length s - length suffix) s = suffix)"

fun join :: "string \<Rightarrow> string list \<Rightarrow> string" where
  "join sep [] = []"
| "join sep [x] = x"
| "join sep (x # y # ys) = x @ sep @ join sep (y # ys)"

subsection \<open>\<open>connect_to_server\<close>\<close>

definition connect_to_server ::
  "env \<Rightarrow> string \<Rightarrow> client \<Rightarrow> event list \<Rightarrow> (exn + unit) \<times> client \<times> event list" where
  "connect_to_server E server_script_path self tr =
     (let is_python = endswith server_script_path ''.py'';
          is_js = endswith server_script_path ''.js''
      in if \<not> (is_python \<or> is_js)
         then (Inl (ValueError ''Server script must be a .py or .js file''), self, tr)
         else
           let command = (if is_python then ''python'' else ''node'');
               tp = StdioTransport command [server_script_path];
               tr1 = tr @ [EvSpawn command [server_script_path]]
           in case stdio_client E tr1 of
                Inl e \<Rightarrow> (Inl e, self, tr1)
              | Inr _ \<Rightarrow>
                  let self1 = self\<lparr>exit_stack := exit_stack self @ [ResTransport tp],
                                   stdio_write := Some tp\<rparr>;
                      tr2 = tr1 @ [EvSession]
                  in case enter_session E tr2 of
                       Inl e \<Rightarrow> (Inl e, self1, tr2)
                     | Inr _ \<Rightarrow>
                         let s = ClientSession tp;
                             self2 = self1\<lparr>exit_stack := exit_stack self1 @ [ResSession s],
                                            session := Some s\<rparr>;
                             tr3 = tr2 @ [EvInitialize]
                         in case initialize E tr3 of
                              Inl e \<Rightarrow> (Inl e, self2, tr3)
                            | Inr _ \<Rightarrow>
                                let tr4 = tr3 @ [EvListTools]
                                in case list_tools E tr4 of
                                     Inl e \<Rightarrow> (Inl e, self2, tr4)
                                   | Inr tools \<Rightarrow>
                                       (Inr (), self2,
                                        tr4 @ [EvPrintTools (map name tools)]))"

subsection \<open>\<open>process_query\<close>\<close>

text \<open>The list comprehension that builds \<open>available_tools\<close> (lines 67 to 76).\<close>

definition available_tools :: "tool list \<Rightarrow> tool_decl list" where
  "available_tools tools =
     map (\<lambda>t. \<lparr>decl_type = ''function'',
               decl_description = description t,
               decl_function = FunctionDict (name t) (inputSchema t)\<rparr>) tools"

text \<open>The local variables that the two loops update.\<close>

record locals =
  messages :: "entry list"
  tool_results :: "(string \<times> tool_result) list"
  final_text :: "string option list"

text \<open>Truth of \<open>message.tool_calls\<close> and of \<open>hasattr(message, 'content') and message.content\<close>.\<close>

fun truthy_calls :: "tool_call list option \<Rightarrow> bool" where
  "truthy_calls None = False"
| "truthy_calls (Some tcs) = (tcs \<noteq> [])"

fun truthy_content :: "string option attr \<Rightarrow> string option" where
  "truthy_content (Attr (Some s)) = (if s = [] then None else Some s)"
| "truthy_content _ = None"

definition calling_line :: "env \<Rightarrow> string \<Rightarrow> json \<Rightarrow> string" where
  "calling_line E tool_name tool_args =
     ''[Calling tool '' @ tool_name @ '' with args '' @ str_of E tool_args @ '']''"

text \<open>
  The body of the inner loop (lines 94 to 120), for one tool call of \<open>message\<close>.
  An exception leaves the loops and the method, with the trace as it is by then.
\<close>

definition dispatch_tool_call ::
  "env \<Rightarrow> chat_message \<Rightarrow> tool_call \<Rightarrow> locals \<Rightarrow> event list \<Rightarrow> (exn + locals) \<times> event list" where
  "dispatch_tool_call E message tool_call L tr =
     (let tool_name = cf_name (tc_function tool_call)
      in case json_loads E (cf_arguments (tc_function tool_call)) of
           Inl m \<Rightarrow> (Inl (JSONDecodeError m), tr)
         | Inr tool_args \<Rightarrow>
             let tr1 = tr @ [EvCallTool tool_name tool_args]
             in case call_tool E tr1 of
                  Inl e \<Rightarrow> (Inl e, tr1)
                | Inr result \<Rightarrow>
                    let results1 = tool_results L @ [(tool_name, result)];
                        text1 = final_text L @ [Some (calling_line E tool_name tool_args)];
                        messages1 =
                          (case truthy_content (msg_content message) of
                             Some c \<Rightarrow> messages L @ [Entry ''assistant'' (Text c)]
                           | None \<Rightarrow> messages L)
                    in case getitem result ''content'' of
                         Inl e \<Rightarrow> (Inl e, tr1)
                       | Inr payload \<Rightarrow>
                           let messages2 = messages1 @ [Entry ''user'' (Payload payload)];
                               tr2 = tr1 @ [EvCreate messages2 None]
                           in case create E tr2 of
                                Inl e \<Rightarrow> (Inl e, tr2)
                              | Inr response \<Rightarrow>
                                  (case choices response of
                                     [] \<Rightarrow> (Inl (IndexError ''list index out of range''), tr2)
                                   | c0 # _ \<Rightarrow>
                                       (case msg_content (choice_message c0) of
                                          NoAttr \<Rightarrow>
                                            (Inl (AttributeError
                                                    (quoted ''ChatCompletionMessage'' @
                                                     '' object has no attribute '' @
                                                     quoted ''content'')), tr2)
                                        | Attr t \<Rightarrow>
                                            (Inr \<lparr>messages = messages2,
                                                  tool_results = results1,
                                                  final_text = text1 @ [t]\<rparr>, tr2))))"

text \<open>\<open>for tool_call in message.tool_calls\<close> (line 93).\<close>

fun dispatch_tool_calls ::
  "env \<Rightarrow> chat_message \<Rightarrow> tool_call list \<Rightarrow> locals \<Rightarrow> event list \<Rightarrow> (exn + locals) \<times> event list" where
  "dispatch_tool_calls E message [] L tr = (Inr L, tr)"
| "dispatch_tool_calls E message (tool_call # rest) L tr =
     (case dispatch_tool_call E message tool_call L tr of
        (Inl e, tr') \<Rightarrow> (Inl e, tr')
      | (Inr L', tr') \<Rightarrow> dispatch_tool_calls E message rest L' tr')"

text \<open>The body of the outer loop (lines 90 to 122), for one choice.\<close>

definition inspect_choice ::
  "env \<Rightarrow> choice \<Rightarrow> locals \<Rightarrow> event list \<Rightarrow> (exn + locals) \<times> event list" where
  "inspect_choice E ch L tr =
     (let message = choice_message ch
      in if msg_role message = ''assistant'' \<and> truthy_calls (msg_tool_calls message)
         then (case msg_tool_calls message of
                 Some tcs \<Rightarrow> dispatch_tool_calls E message tcs L tr
               | None \<Rightarrow> (Inr L, tr))
         else if msg_role message = ''assistant'' \<and> msg_content message \<noteq> NoAttr
         then (case msg_content message of
                 Attr t \<Rightarrow> (Inr (L\<lparr>final_text := final_text L @ [t]\<rparr>), tr)
               | NoAttr \<Rightarrow> (Inr L, tr))
         else (Inr L, tr))"

text \<open>\<open>for choice in response.choices\<close> (line 89), over the choices of the first response.\<close>

fun inspect_choices ::
  "env \<Rightarrow> choice list \<Rightarrow> locals \<Rightarrow> event list \<Rightarrow> (exn + locals) \<times> event list" where
  "inspect_choices E [] L tr = (Inr L, tr)"
| "inspect_choices E (ch # rest) L tr =
     (case inspect_choice E ch L tr of
        (Inl e, tr') \<Rightarrow> (Inl e, tr')
      | (Inr L', tr') \<Rightarrow> inspect_choices E rest L' tr')"

text \<open>Lines 123 and 124: drop the \<open>None\<close> entries, join the rest with newlines.\<close>

definition render :: "string option list \<Rightarrow> string" where
  "render texts = join [CHR 0x0A] (map the (filter (\<lambda>t. t \<noteq> None) texts))"

definition process_query ::
  "env \<Rightarrow> client \<Rightarrow> string \<Rightarrow> event list \<Rightarrow> (exn + string) \<times> event list" where
  "process_query E self query tr =
     (let messages0 = [Entry ''user'' (Text query)]
      in case session self of
           None \<Rightarrow>
             (Inl (AttributeError
                     (quoted ''NoneType'' @ '' object has no attribute '' @
                      quoted ''list_tools'')), tr)
         | Some _ \<Rightarrow>
             let tr1 = tr @ [EvListTools]
             in case list_tools E tr1 of
                  Inl e \<Rightarrow> (Inl e, tr1)
                | Inr tools \<Rightarrow>
                    let tr2 = tr1 @ [EvCreate messages0 (Some (available_tools tools))]
                    in case create E tr2 of
                         Inl e \<Rightarrow> (Inl e, tr2)
                       | Inr response \<Rightarrow>
                           (case inspect_choices E (choices response)
                                   \<lparr>messages = messages0, tool_results = [], final_text = []\<rparr> tr2 of
                              (Inl e, tr3) \<Rightarrow> (Inl e, tr3)
                            | (Inr L, tr3) \<Rightarrow> (Inr (render (final_text L)), tr3)))"

subsection \<open>\<open>chat_loop\<close>\<close>

text \<open>
  The terminal gives the lines of its input one by one; at its end \<open>input\<close> raises
  \<open>EOFError\<close>, outside the \<open>try\<close>. One round of \<open>while True\<close> for each line.
\<close>

fun chat_rounds ::
  "env \<Rightarrow> client \<Rightarrow> string list \<Rightarrow> event list \<Rightarrow> (exn + unit) \<times> event list" where
  "chat_rounds E self [] tr = (Inl EOFError, tr @ [EvInput (CHR 0x0A # ''Query: '')])"
| "chat_rounds E self (line # rest) tr =
     (let query = py_strip line;
          tr1 = tr @ [EvInput (CHR 0x0A # ''Query: '')]
      in if py_lower query = ''quit'' then (Inr (), tr1)
         else case process_query E self query tr1 of
                (Inr response, tr2) \<Rightarrow>
                  chat_rounds E self rest (tr2 @ [EvPrint (CHR 0x0A # response)])
              | (Inl e, tr2) \<Rightarrow>
                  if is_UnicodeDecodeError e
                  then chat_rounds E self rest
                         (tr2 @ [EvPrint (''Decoding error: '' @ exn_str e)])
                  else if is_Exception e
                  then chat_rounds E self rest (tr2 @ [EvPrint (''Error: '' @ exn_str e)])
                  else (Inl e, tr2))"

definition chat_loop ::
  "env \<Rightarrow> client \<Rightarrow> string list \<Rightarrow> event list \<Rightarrow> (exn + unit) \<times> event list" where
  "chat_loop E self lines tr =
     chat_rounds E self lines
       (tr @ [EvPrint (CHR 0x0A # ''MCP Client Started!''),
              EvPrint ''Type your queries or 'quit' to exit.''])"

subsection \<open>Notions for the statements\<close>

text \<open>
  The first completion request of \<open>process_query\<close> and the local variables as the
  loop over the choices finds them.
\<close>

definition first_request :: "string \<Rightarrow> tool list \<Rightarrow> event" where
  "first_request query tools =
     EvCreate [Entry ''user'' (Text query)] (Some (available_tools tools))"

definition locals0 :: "string \<Rightarrow> locals" where
  "locals0 query =
     \<lparr>messages = [Entry ''user'' (Text query)], tool_results = [], final_text = []\<rparr>"

text \<open>
  The tool calls that a list of choices asks for, in the order of the choices and of
  each message: those of the assistant messages whose \<open>tool_calls\<close> is a list with
  an element.
\<close>

fun requested_calls :: "choice list \<Rightarrow> tool_call list" where
  "requested_calls [] = []"
| "requested_calls (ch # rest) =
     (case msg_tool_calls (choice_message ch) of
        Some tcs \<Rightarrow>
          (if msg_role (choice_message ch) = ''assistant'' then tcs else []) @ requested_calls rest
      | None \<Rightarrow> requested_calls rest)"


text \<open>
  The contents of the plain assistant messages among the choices, in their order:
  what line 122 appends to \<open>final_text\<close>.
\<close>

fun plain_texts :: "choice list \<Rightarrow> string option list" where
  "plain_texts [] = []"
| "plain_texts (ch # rest) =
     (if msg_role (choice_message ch) = ''assistant'' \<and>
         \<not> truthy_calls (msg_tool_calls (choice_message ch))
      then (case msg_content (choice_message ch) of Attr t \<Rightarrow> [t] | NoAttr \<Rightarrow> [])
      else []) @ plain_texts rest"


fun is_create :: "event \<Rightarrow> bool" where
  "is_create (EvCreate ms ts) = True"
| "is_create _ = False"

text \<open>What \<open>chat_loop\<close> prints for an exception it catches.\<close>

definition report :: "exn \<Rightarrow> string" where
  "report e =
     (if is_UnicodeDecodeError e then ''Decoding error: '' @ exn_str e
      else ''Error: '' @ exn_str e)"

definition prompt :: string where
  "prompt = CHR 0x0A # ''Query: ''"

text \<open>
  The word \<open>quit\<close> in any letter case: four characters, each the letter of \<open>quit\<close> at
  its place or that letter's capital.
\<close>

definition same_letter :: "char \<Rightarrow> char \<Rightarrow> bool" where
  "same_letter c d = (c = d \<or> (of_char c :: nat) + 32 = of_char d)"

definition quit_word :: "string \<Rightarrow> bool" where
  "quit_word s = list_all2 same_letter s ''quit''"

subsection \<open>A scripted environment\<close>

text \<open>
  For concrete runs: the tool provider lists \<open>tools\<close>, answers a call of a listed tool
  \<open>n\<close> with a \<open>CallToolResult\<close> whose content is \<open>n\<close>, and raises on any other
  name; the k-th completion request gets the k-th entry of \<open>script\<close>;
  \<open>json.loads\<close> and \<open>str\<close> are given on the two payloads the runs use,
  \<open>json.loads('{}') = {}\<close> with \<open>str({}) = '{}'\<close>, and a \<open>JSONDecodeError\<close> on
  any other payload (the runs use the ill-formed \<open>'{oops'\<close>).
\<close>

definition scripted :: "tool list \<Rightarrow> (exn + completion) list \<Rightarrow> env" where
  "scripted tools script =
     \<lparr>stdio_client = (\<lambda>tr. Inr ()),
      enter_session = (\<lambda>tr. Inr ()),
      initialize = (\<lambda>tr. Inr ()),
      list_tools = (\<lambda>tr. Inr tools),
      create = (\<lambda>tr. let k = length (filter is_create tr)
                     in if 0 < k \<and> k \<le> length script then script ! (k - 1)
                        else Inl (OtherError ''no response'')),
      call_tool = (\<lambda>tr. case last tr of
                            EvCallTool n a \<Rightarrow>
                              if n \<in> set (map name tools)
                              then Inr (CallToolResult [JStr n] False)
                              else Inl (OtherError (''Unknown tool: '' @ n))
                          | _ \<Rightarrow> Inl (OtherError ''no call'')),
      json_loads = (\<lambda>s. if s = ''{}'' then Inr (JObj [])
                        else Inl ''Expecting property name enclosed in double quotes''),
      str_of = (\<lambda>j. ''{}'')\<rparr>"

definition connected :: client where
  "connected =
     (let tp = StdioTransport ''python'' [''server.py'']
      in \<lparr>session = Some (ClientSession tp), stdio_write = Some tp,
          exit_stack = [ResTransport tp, ResSession (ClientSession tp)]\<rparr>)"

definition add_tool :: tool where
  "add_tool = \<lparr>name = ''add'', description = Some ''Add two numbers'', inputSchema = JObj []\<rparr>"

definition disconnected :: client where
  "disconnected = \<lparr>session = None, stdio_write = None, exit_stack = []\<rparr>"

definition echo_tool :: tool where
  "echo_tool = \<lparr>name = ''echo'', description = None, inputSchema = JObj [(''type'', JStr ''object'')]\<rparr>"

definition call_add :: tool_call where
  "call_add = ToolCall ''call_1'' (CallFunction ''add'' ''{}'')"

definition call_again :: tool_call where
  "call_again = ToolCall ''call_2'' (CallFunction ''add'' ''{}'')"

definition call_ghost :: tool_call where
  "call_ghost = ToolCall ''call_3'' (CallFunction ''ghost'' ''{}'')"

definition call_bad :: tool_call where
  "call_bad = ToolCall ''call_4'' (CallFunction ''add'' ''{oops'')"

definition plain :: "string option \<Rightarrow> completion" where
  "plain c =
     Completion [Choice \<lparr>msg_role = ''assistant'', msg_content = Attr c, msg_tool_calls = None\<rparr>]"

definition asking :: "string option \<Rightarrow> tool_call list \<Rightarrow> completion" where
  "asking c tcs =
     Completion [Choice \<lparr>msg_role = ''assistant'', msg_content = Attr c,
                         msg_tool_calls = Some tcs\<rparr>]"

section \<open>Properties\<close>

subsection \<open>Shared lemmas: how a run of \<open>process_query\<close> unfolds\<close>

lemmas run_defs =
  process_query_def scripted_def connected_def add_tool_def asking_def plain_def
  call_add_def call_again_def call_ghost_def call_bad_def first_request_def available_tools_def
  dispatch_tool_call_def inspect_choice_def calling_line_def render_def Let_def locals0_def
  getitem_def

lemma process_query_run:
  assumes "session self = Some s"
    and "list_tools E (tr @ [EvListTools]) = Inr tools"
    and "create E (tr @ [EvListTools, first_request query tools]) = Inr response"
  shows "process_query E self query tr =
           (case inspect_choices E (choices response) (locals0 query)
                   (tr @ [EvListTools, first_request query tools]) of
              (Inl e, tr3) \<Rightarrow> (Inl e, tr3)
            | (Inr L, tr3) \<Rightarrow> (Inr (render (final_text L)), tr3))"
  using assms by (simp add: process_query_def first_request_def locals0_def Let_def)

lemma render_single: "render [t] = (case t of None \<Rightarrow> [] | Some s \<Rightarrow> s)"
  by (cases t) (simp_all add: render_def)

lemma inspect_plain:
  assumes "msg_role (choice_message ch) = ''assistant''"
    and "\<not> truthy_calls (msg_tool_calls (choice_message ch))"
    and "msg_content (choice_message ch) = Attr t"
  shows "inspect_choice E ch L tr = (Inr (L\<lparr>final_text := final_text L @ [t]\<rparr>), tr)"
  using assms by (simp add: inspect_choice_def)

lemma plain_run:
  assumes "session self = Some s"
    and "list_tools E (tr @ [EvListTools]) = Inr tools"
    and "create E (tr @ [EvListTools, first_request query tools]) = Inr response"
    and "choices response = [ch]"
    and "msg_role (choice_message ch) = ''assistant''"
    and "\<not> truthy_calls (msg_tool_calls (choice_message ch))"
    and "msg_content (choice_message ch) = Attr t"
  shows "process_query E self query tr =
           (Inr (case t of None \<Rightarrow> [] | Some s \<Rightarrow> s),
            tr @ [EvListTools, first_request query tools])"
  using assms
  by (simp add: process_query_run [OF assms(1-3)] inspect_plain [OF assms(5-7)]
      locals0_def render_single)

text \<open>Every part of a run only appends to the trace.\<close>

lemma dispatch_tool_call_extends:
  "dispatch_tool_call E m tc L tr = (r, tr') \<Longrightarrow> \<exists>new. tr' = tr @ new"
  by (auto simp: dispatch_tool_call_def Let_def
      split: sum.splits option.splits list.splits attr.splits)

lemma dispatch_tool_calls_extends:
  "dispatch_tool_calls E m tcs L tr = (r, tr') \<Longrightarrow> \<exists>new. tr' = tr @ new"
proof (induction tcs arbitrary: L tr)
  case Nil
  then show ?case by simp
next
  case (Cons tc tcs)
  obtain r1 tr1 where step: "dispatch_tool_call E m tc L tr = (r1, tr1)"
    by (cases "dispatch_tool_call E m tc L tr")
  then obtain n1 where tr1: "tr1 = tr @ n1"
    using dispatch_tool_call_extends by blast
  show ?case
  proof (cases r1)
    case (Inl e)
    with Cons.prems step tr1 show ?thesis by auto
  next
    case (Inr L1)
    with Cons.prems step have "dispatch_tool_calls E m tcs L1 tr1 = (r, tr')" by simp
    then obtain n2 where "tr' = tr1 @ n2" using Cons.IH by blast
    with tr1 show ?thesis by simp
  qed
qed

lemma inspect_choice_extends:
  "inspect_choice E ch L tr = (r, tr') \<Longrightarrow> \<exists>new. tr' = tr @ new"
  by (auto simp: inspect_choice_def Let_def dest: dispatch_tool_calls_extends
      split: if_splits option.splits attr.splits)

lemma inspect_choices_extends:
  "inspect_choices E cs L tr = (r, tr') \<Longrightarrow> \<exists>new. tr' = tr @ new"
proof (induction cs arbitrary: L tr)
  case Nil
  then show ?case by simp
next
  case (Cons ch cs)
  obtain r1 tr1 where step: "inspect_choice E ch L tr = (r1, tr1)"
    by (cases "inspect_choice E ch L tr")
  then obtain n1 where tr1: "tr1 = tr @ n1"
    using inspect_choice_extends by blast
  show ?case
  proof (cases r1)
    case (Inl e)
    with Cons.prems step tr1 show ?thesis by auto
  next
    case (Inr L1)
    with Cons.prems step have "inspect_choices E cs L1 tr1 = (r, tr')" by simp
    then obtain n2 where "tr' = tr1 @ n2" using Cons.IH by blast
    with tr1 show ?thesis by simp
  qed
qed


lemma dispatch_tool_call_calls:
  assumes "json_loads E (cf_arguments (tc_function tc)) = Inr a"
  shows "\<exists>r more. dispatch_tool_call E msg tc L tr =
                     (r, tr @ EvCallTool (cf_name (tc_function tc)) a # more)"
  using assms
  by (auto simp: dispatch_tool_call_def Let_def
      split: sum.splits option.splits list.splits attr.splits)

lemma dispatch_tool_call_remote_error:
  assumes "json_loads E (cf_arguments (tc_function tc)) = Inr a"
    and "call_tool E (tr @ [EvCallTool (cf_name (tc_function tc)) a]) = Inl e"
  shows "dispatch_tool_call E msg tc L tr =
           (Inl e, tr @ [EvCallTool (cf_name (tc_function tc)) a])"
  using assms by (simp add: dispatch_tool_call_def Let_def)

lemma dispatch_tool_call_stops:
  assumes "dispatch_tool_call E m tc L tr = (r, tr')"
  shows "\<exists>e. r = Inl e"
  using assms
  by (auto simp: dispatch_tool_call_def getitem_def Let_def split: sum.splits)

lemma dispatch_tool_calls_stops:
  assumes "dispatch_tool_calls E m (tc # tcs) L tr = (r, tr')"
  shows "\<exists>e. r = Inl e"
proof -
  obtain r1 tr1 where step: "dispatch_tool_call E m tc L tr = (r1, tr1)"
    by (cases "dispatch_tool_call E m tc L tr")
  from dispatch_tool_call_stops [OF step] obtain e where "r1 = Inl e" by blast
  with assms step have "r = Inl e" by simp
  then show ?thesis by blast
qed




text \<open>A choice either asks for tool calls or adds its text.\<close>

lemma requested_calls_Cons:
  "requested_calls (ch # cs) = requested_calls [ch] @ requested_calls cs"
  by (simp split: option.splits)

lemma plain_texts_Cons: "plain_texts (ch # cs) = plain_texts [ch] @ plain_texts cs"
  by simp

lemma inspect_choice_asks:
  assumes "msg_role (choice_message ch) = ''assistant''"
    and "truthy_calls (msg_tool_calls (choice_message ch))"
  shows "\<exists>tc tcs. requested_calls [ch] = tc # tcs \<and>
           inspect_choice E ch L tr = dispatch_tool_calls E (choice_message ch) (tc # tcs) L tr"
proof -
  from assms(2) obtain tc tcs where "msg_tool_calls (choice_message ch) = Some (tc # tcs)"
    by (cases "msg_tool_calls (choice_message ch)") (auto simp: neq_Nil_conv)
  with assms(1) show ?thesis by (simp add: inspect_choice_def Let_def)
qed

lemma inspect_choice_adds:
  assumes "\<not> (msg_role (choice_message ch) = ''assistant'' \<and>
              truthy_calls (msg_tool_calls (choice_message ch)))"
  shows "requested_calls [ch] = [] \<and>
         inspect_choice E ch L tr = (Inr (L\<lparr>final_text := final_text L @ plain_texts [ch]\<rparr>), tr)"
  using assms
  by (cases "msg_tool_calls (choice_message ch)")
     (auto simp: inspect_choice_def Let_def split: attr.splits)




lemma inspect_choice_returns:
  assumes "inspect_choice E ch L tr = (Inr L', tr')"
  shows "tr' = tr \<and> requested_calls [ch] = [] \<and>
         L' = L\<lparr>final_text := final_text L @ plain_texts [ch]\<rparr>"
proof (cases "msg_role (choice_message ch) = ''assistant'' \<and>
              truthy_calls (msg_tool_calls (choice_message ch))")
  case True
  then obtain tc tcs where
    "inspect_choice E ch L tr = dispatch_tool_calls E (choice_message ch) (tc # tcs) L tr"
    using inspect_choice_asks by blast
  with assms dispatch_tool_calls_stops [of E "choice_message ch" tc tcs L tr "Inr L'" tr']
  show ?thesis by simp
next
  case False
  from inspect_choice_adds [OF False, of E L tr] assms show ?thesis by simp
qed

lemma inspect_choices_returns:
  "inspect_choices E cs L tr = (Inr L', tr') \<Longrightarrow>
   tr' = tr \<and> requested_calls cs = [] \<and>
   L' = L\<lparr>final_text := final_text L @ plain_texts cs\<rparr>"
proof (induction cs arbitrary: L tr)
  case Nil
  then show ?case by simp
next
  case (Cons ch cs)
  obtain r1 tr1 where step: "inspect_choice E ch L tr = (r1, tr1)"
    by (cases "inspect_choice E ch L tr")
  with Cons.prems obtain L1 where r1: "r1 = Inr L1"
    by (cases r1) auto
  from step r1 inspect_choice_returns have same: "tr1 = tr"
    and none: "requested_calls [ch] = []"
    and L1: "L1 = L\<lparr>final_text := final_text L @ plain_texts [ch]\<rparr>"
    by blast+
  from Cons.prems step r1 same have "inspect_choices E cs L1 tr = (Inr L', tr')" by simp
  then have "tr' = tr \<and> requested_calls cs = [] \<and>
             L' = L1\<lparr>final_text := final_text L1 @ plain_texts cs\<rparr>"
    by (rule Cons.IH)
  with none L1 show ?case
    by (subst requested_calls_Cons, subst plain_texts_Cons) simp
qed

lemma inspect_choices_no_calls:
  "requested_calls cs = [] \<Longrightarrow>
   inspect_choices E cs L tr = (Inr (L\<lparr>final_text := final_text L @ plain_texts cs\<rparr>), tr)"
proof (induction cs arbitrary: L)
  case Nil
  then show ?case by simp
next
  case (Cons ch cs)
  from Cons.prems have one: "requested_calls [ch] = []" and rest: "requested_calls cs = []"
    by (simp_all split: option.splits if_splits)
  have "\<not> (msg_role (choice_message ch) = ''assistant'' \<and>
            truthy_calls (msg_tool_calls (choice_message ch)))"
    using one inspect_choice_asks [of ch] by auto
  then have step: "inspect_choice E ch L tr =
                     (Inr (L\<lparr>final_text := final_text L @ plain_texts [ch]\<rparr>), tr)"
    using inspect_choice_adds by blast
  show ?case
    using Cons.IH [OF rest, of "L\<lparr>final_text := final_text L @ plain_texts [ch]\<rparr>"] step
    by (subst plain_texts_Cons) simp
qed


text \<open>The run up to a given tool call of a given choice, and what follows it.\<close>

lemma dispatch_tool_calls_append:
  "dispatch_tool_calls E m (xs @ ys) L tr =
     (case dispatch_tool_calls E m xs L tr of
        (Inl e, t) \<Rightarrow> (Inl e, t)
      | (Inr L1, t) \<Rightarrow> dispatch_tool_calls E m ys L1 t)"
  by (induction xs arbitrary: L tr) (simp_all split: prod.splits sum.splits)

lemma inspect_choices_append:
  "inspect_choices E (xs @ ys) L tr =
     (case inspect_choices E xs L tr of
        (Inl e, t) \<Rightarrow> (Inl e, t)
      | (Inr L1, t) \<Rightarrow> inspect_choices E ys L1 t)"
  by (induction xs arbitrary: L tr) (simp_all split: prod.splits sum.splits)

lemma reach_tool_call:
  assumes "session self = Some s"
    and "list_tools E (tr @ [EvListTools]) = Inr tools"
    and "create E (tr @ [EvListTools, first_request query tools]) = Inr response"
    and "choices response = before @ ch # after"
    and "inspect_choices E before (locals0 query) (tr @ [EvListTools, first_request query tools])
           = (Inr L1, tr1)"
    and "msg_role (choice_message ch) = ''assistant''"
    and "msg_tool_calls (choice_message ch) = Some (earlier @ tc # later)"
    and "dispatch_tool_calls E (choice_message ch) earlier L1 tr1 = (Inr L2, tr2)"
  shows "process_query E self query tr =
           (case dispatch_tool_call E (choice_message ch) tc L2 tr2 of
              (Inl e, t) \<Rightarrow> (Inl e, t)
            | (Inr L3, t3) \<Rightarrow>
                (case dispatch_tool_calls E (choice_message ch) later L3 t3 of
                   (Inl e, t) \<Rightarrow> (Inl e, t)
                 | (Inr L4, t4) \<Rightarrow>
                     (case inspect_choices E after L4 t4 of
                        (Inl e, t) \<Rightarrow> (Inl e, t)
                      | (Inr L, t) \<Rightarrow> (Inr (render (final_text L)), t))))"
proof -
  have nonempty: "earlier @ tc # later \<noteq> []" by simp
  have ch: "inspect_choice E ch L1 tr1 =
              dispatch_tool_calls E (choice_message ch) (earlier @ tc # later) L1 tr1"
    using assms(6,7) nonempty by (simp add: inspect_choice_def)
  show ?thesis
    unfolding process_query_run [OF assms(1-3)] assms(4) inspect_choices_append assms(5)
    by (simp add: ch dispatch_tool_calls_append assms(8) split: prod.splits sum.splits)
qed

text \<open>Letter case.\<close>

lemma UnicodeDecodeError_is_Exception: "is_UnicodeDecodeError e \<Longrightarrow> is_Exception e"
  by (cases e) simp_all

lemma lower_char_iff:
  assumes "97 \<le> (of_char d :: nat)" and "(of_char d :: nat) \<le> 122"
  shows "py_lower_char c = d \<longleftrightarrow> same_letter c d"
proof -
  define n where "n = (of_char c :: nat)"
  define k where "k = (of_char d :: nat)"
  have n: "n < 256" by (simp add: n_def)
  have k: "97 \<le> k" "k \<le> 122" using assms by (simp_all add: k_def)
  have lhs: "py_lower_char c = d \<longleftrightarrow> (of_char (py_lower_char c) :: nat) = k"
    by (simp add: k_def)
  have val: "(of_char (py_lower_char c) :: nat) =
               (if (65 \<le> n \<and> n \<le> 90) \<or> (192 \<le> n \<and> n \<le> 222 \<and> n \<noteq> 215)
                then n + 32 else n)"
    using n by (simp add: py_lower_char_def n_def Let_def)
  have rhs: "same_letter c d \<longleftrightarrow> (n = k \<or> n + 32 = k)"
    by (simp add: same_letter_def n_def k_def)
  show ?thesis
    unfolding lhs val rhs using k by auto
qed

lemma py_lower_quit: "py_lower s = ''quit'' \<longleftrightarrow> quit_word s"
  unfolding py_lower_def quit_word_def
  by (auto simp: map_eq_Cons_conv list_all2_Cons2 lower_char_iff)

text \<open>The scripted environment at the start of a run.\<close>

lemma connected_session:
  "session connected = Some (ClientSession (StdioTransport ''python'' [''server.py'']))"
  by (simp add: connected_def Let_def)

lemma scripted_list_tools: "list_tools (scripted tools script) tr = Inr tools"
  by (simp add: scripted_def)

lemma scripted_first_create:
  "create (scripted tools (x # script)) ([] @ [EvListTools, first_request query tools']) = x"
  by (simp add: scripted_def first_request_def)

subsection \<open>The orchestration of one query\<close>




text \<open>
  Claim C2 describes what lines 93 to 120 set out to do; the code does not get there.
  The one message of the first response asks for two tool calls. The first tool is
  called remotely; then the subscript \<open>result['content']\<close> of line 111 raises
  \<open>TypeError\<close> on the \<open>CallToolResult\<close>, and the query ends: no follow-up completion
  request is made and the second tool is never called.
\<close>

theorem second_call_never_made:
  "process_query
     (scripted [add_tool]
        [Inr (asking (Some ''Adding.'') [call_add, call_again]),
         Inr (plain (Some ''one'')), Inr (plain (Some ''two''))])
     connected ''q'' [] =
     (Inl (TypeError (quoted ''CallToolResult'' @ '' object is not subscriptable'')),
      [EvListTools, first_request ''q'' [add_tool], EvCallTool ''add'' (JObj [])])"
  by (simp add: run_defs)

text \<open>
  Claim C3. The declarations built from the listed tools are as many as the tools and in
  their order, and the declaration at each position has the type \<open>function\<close> and the
  name, the description and the input schema of the tool at that position. The source
  nests name and parameters under the key \<open>function\<close>.
\<close>

theorem available_tools_one_to_one:
  "length (available_tools tools) = length tools \<and>
   (\<forall>i < length tools.
      decl_type (available_tools tools ! i) = ''function'' \<and>
      fd_name (decl_function (available_tools tools ! i)) = name (tools ! i) \<and>
      decl_description (available_tools tools ! i) = description (tools ! i) \<and>
      fd_parameters (decl_function (available_tools tools ! i)) = inputSchema (tools ! i))"
  by (simp add: available_tools_def)

theorem available_tools_one_to_one_witness:
  "length (available_tools [add_tool, echo_tool]) = 2 \<and>
   decl_type (available_tools [add_tool, echo_tool] ! 1) = ''function'' \<and>
   fd_name (decl_function (available_tools [add_tool, echo_tool] ! 1)) = ''echo'' \<and>
   decl_description (available_tools [add_tool, echo_tool] ! 1) = None \<and>
   fd_parameters (decl_function (available_tools [add_tool, echo_tool] ! 1)) =
     JObj [(''type'', JStr ''object'')]"
proof -
  have "(1::nat) < length [add_tool, echo_tool]" by simp
  with available_tools_one_to_one [of "[add_tool, echo_tool]"] show ?thesis
    by (simp add: echo_tool_def)
qed

text \<open>
  Claim C4, as the code has it. \<open>process_query\<close> never compares the name of a requested
  tool with the listed tools. When the loop reaches a tool call whose arguments decode,
  the remote call goes out under the name the LLM gave, also when no listed tool has
  that name; and when the provider raises on it, that exception, whichever it is,
  leaves \<open>process_query\<close> with the remote call as the last event.
\<close>

theorem remote_call_without_lookup:
  assumes "session self = Some s"
    and "list_tools E (tr @ [EvListTools]) = Inr tools"
    and "create E (tr @ [EvListTools, first_request query tools]) = Inr response"
    and "choices response = before @ ch # after"
    and "inspect_choices E before (locals0 query) (tr @ [EvListTools, first_request query tools])
           = (Inr L1, tr1)"
    and "msg_role (choice_message ch) = ''assistant''"
    and "msg_tool_calls (choice_message ch) = Some (earlier @ tc # later)"
    and "dispatch_tool_calls E (choice_message ch) earlier L1 tr1 = (Inr L2, tr2)"
    and "json_loads E (cf_arguments (tc_function tc)) = Inr a"
    and "cf_name (tc_function tc) \<notin> set (map name tools)"
  shows "(\<exists>r more. process_query E self query tr =
                     (r, tr2 @ EvCallTool (cf_name (tc_function tc)) a # more)) \<and>
         (\<forall>e. call_tool E (tr2 @ [EvCallTool (cf_name (tc_function tc)) a]) = Inl e \<longrightarrow>
              process_query E self query tr =
                (Inl e, tr2 @ [EvCallTool (cf_name (tc_function tc)) a]))"
proof (intro conjI allI impI)
  let ?m = "choice_message ch"
  let ?call = "EvCallTool (cf_name (tc_function tc)) a"
  obtain r1 more1 where step: "dispatch_tool_call E ?m tc L2 tr2 = (r1, tr2 @ ?call # more1)"
    using dispatch_tool_call_calls [OF assms(9)] by blast
  show "\<exists>r more. process_query E self query tr = (r, tr2 @ ?call # more)"
  proof (cases r1)
    case (Inl e)
    with step show ?thesis by (simp add: reach_tool_call [OF assms(1-8)])
  next
    case r1: (Inr L3)
    obtain r2 t2 where rest: "dispatch_tool_calls E ?m later L3 (tr2 @ ?call # more1) = (r2, t2)"
      by (cases "dispatch_tool_calls E ?m later L3 (tr2 @ ?call # more1)")
    then obtain n2 where t2: "t2 = (tr2 @ ?call # more1) @ n2"
      using dispatch_tool_calls_extends by blast
    show ?thesis
    proof (cases r2)
      case (Inl e)
      with step r1 rest t2 show ?thesis by (simp add: reach_tool_call [OF assms(1-8)])
    next
      case r2: (Inr L4)
      obtain r3 t3 where tail: "inspect_choices E after L4 t2 = (r3, t3)"
        by (cases "inspect_choices E after L4 t2")
      then obtain n3 where t3: "t3 = t2 @ n3"
        using inspect_choices_extends by blast
      from step r1 rest r2 tail t2 t3 show ?thesis
        by (cases r3) (simp_all add: reach_tool_call [OF assms(1-8)])
    qed
  qed
next
  fix e
  assume "call_tool E (tr2 @ [EvCallTool (cf_name (tc_function tc)) a]) = Inl e"
  then show "process_query E self query tr =
               (Inl e, tr2 @ [EvCallTool (cf_name (tc_function tc)) a])"
    by (simp add: reach_tool_call [OF assms(1-8)] dispatch_tool_call_remote_error [OF assms(9)])
qed

theorem remote_call_without_lookup_witness:
  "''ghost'' \<notin> set (map name [add_tool]) \<and>
   (\<exists>r more.
      process_query (scripted [add_tool] [Inr (asking None [call_ghost]), Inr (plain None)])
        connected ''q'' [] =
      (r, [EvListTools, first_request ''q'' [add_tool]] @ EvCallTool ''ghost'' (JObj []) # more))"
proof -
  let ?E = "scripted [add_tool] [Inr (asking None [call_ghost]), Inr (plain None)]"
  let ?ch = "Choice \<lparr>msg_role = ''assistant'', msg_content = Attr None,
                     msg_tool_calls = Some [call_ghost]\<rparr>"
  let ?tr0 = "[] @ [EvListTools, first_request ''q'' [add_tool]]"
  have h4: "choices (asking None [call_ghost]) = [] @ ?ch # []"
    by (simp add: asking_def)
  have h5: "inspect_choices ?E [] (locals0 ''q'') ?tr0 = (Inr (locals0 ''q''), ?tr0)"
    by simp
  have h6: "msg_role (choice_message ?ch) = ''assistant''" by simp
  have h7: "msg_tool_calls (choice_message ?ch) = Some ([] @ call_ghost # [])" by simp
  have h8: "dispatch_tool_calls ?E (choice_message ?ch) [] (locals0 ''q'') ?tr0
              = (Inr (locals0 ''q''), ?tr0)"
    by simp
  have h9: "json_loads ?E (cf_arguments (tc_function call_ghost)) = Inr (JObj [])"
    by (simp add: scripted_def call_ghost_def)
  have h10: "cf_name (tc_function call_ghost) \<notin> set (map name [add_tool])"
    by (simp add: call_ghost_def add_tool_def)
  from remote_call_without_lookup
         [OF connected_session scripted_list_tools scripted_first_create h4 h5 h6 h7 h8 h9 h10]
  show ?thesis
    by (simp add: call_ghost_def add_tool_def)
qed

text \<open>
  Claim C4, as the specification words it, fails. The provider lists the one tool
  \<open>add\<close> and the LLM asks for \<open>ghost\<close>: the remote call for \<open>ghost\<close> is issued, and the
  error that ends the query is the one the provider raises on that call.
\<close>

theorem unknown_tool_is_called:
  "process_query (scripted [add_tool] [Inr (asking None [call_ghost])]) connected ''q'' [] =
     (Inl (OtherError ''Unknown tool: ghost''),
      [EvListTools, first_request ''q'' [add_tool], EvCallTool ''ghost'' (JObj [])])"
  by (simp add: run_defs)



text \<open>
  Claim C6. When the first response is one assistant message without tool calls,
  \<open>process_query\<close> makes the one completion request and no remote tool call, and
  returns the content of the message (the empty string for a content of \<open>None\<close>).
\<close>

theorem plain_answer:
  assumes "session self = Some s"
    and "list_tools E (tr @ [EvListTools]) = Inr tools"
    and "create E (tr @ [EvListTools, first_request query tools]) = Inr response"
    and "choices response = [ch]"
    and "msg_role (choice_message ch) = ''assistant''"
    and "\<not> truthy_calls (msg_tool_calls (choice_message ch))"
    and "msg_content (choice_message ch) = Attr t"
  shows "process_query E self query tr =
           (Inr (case t of None \<Rightarrow> [] | Some s \<Rightarrow> s),
            tr @ [EvListTools, first_request query tools])"
  by (rule plain_run [OF assms])

theorem plain_answer_witness:
  "process_query (scripted [add_tool] [Inr (plain (Some ''Hello''))]) connected ''q'' [] =
     (Inr ''Hello'', [EvListTools, first_request ''q'' [add_tool]])"
proof -
  let ?ch = "Choice \<lparr>msg_role = ''assistant'', msg_content = Attr (Some ''Hello''),
                     msg_tool_calls = None\<rparr>"
  have h4: "choices (plain (Some ''Hello'')) = [?ch]" by (simp add: plain_def)
  have h5: "msg_role (choice_message ?ch) = ''assistant''" by simp
  have h6: "\<not> truthy_calls (msg_tool_calls (choice_message ?ch))" by simp
  have h7: "msg_content (choice_message ?ch) = Attr (Some ''Hello'')" by simp
  from plain_answer [OF connected_session scripted_list_tools scripted_first_create h4 h5 h6 h7]
  show ?thesis by simp
qed

text \<open>
  Claim C10. The answer of \<open>process_query\<close> is the join of the entries of \<open>final_text\<close>
  that are not \<open>None\<close>, in their order, with a newline between two of them: an
  entry \<open>None\<close>, the content of a message without text, adds nothing, neither the word
  \<open>None\<close> nor a newline. For a query that returns, \<open>final_text\<close> holds the contents of
  the plain assistant messages of the first response. When the first response asks
  for no tool call the query does return; with one plain assistant message of content
  \<open>None\<close> the answer is the empty string.
\<close>

theorem none_entries_dropped:
  assumes "session self = Some s"
    and "list_tools E (tr @ [EvListTools]) = Inr tools"
    and "create E (tr @ [EvListTools, first_request query tools]) = Inr response"
  shows "(requested_calls (choices response) = [] \<longrightarrow>
            process_query E self query tr =
              (Inr (join [CHR 0x0A]
                      (map the (filter (\<lambda>t. t \<noteq> None) (plain_texts (choices response))))),
               tr @ [EvListTools, first_request query tools])) \<and>
         (\<forall>out tr'. process_query E self query tr = (Inr out, tr') \<longrightarrow>
            (\<exists>L. inspect_choices E (choices response) (locals0 query)
                    (tr @ [EvListTools, first_request query tools]) = (Inr L, tr') \<and>
                  final_text L = plain_texts (choices response) \<and>
                  out = join [CHR 0x0A] (map the (filter (\<lambda>t. t \<noteq> None) (final_text L))))) \<and>
         (\<forall>ch. choices response = [ch] \<and> msg_role (choice_message ch) = ''assistant'' \<and>
               \<not> truthy_calls (msg_tool_calls (choice_message ch)) \<and>
               msg_content (choice_message ch) = Attr None \<longrightarrow>
               process_query E self query tr =
                 (Inr [], tr @ [EvListTools, first_request query tools]))"
proof (intro conjI allI impI)
  let ?tr0 = "tr @ [EvListTools, first_request query tools]"
  note run = process_query_run [OF assms]
  show "process_query E self query tr =
          (Inr (join [CHR 0x0A]
                  (map the (filter (\<lambda>t. t \<noteq> None) (plain_texts (choices response))))), ?tr0)"
    if "requested_calls (choices response) = []"
    using inspect_choices_no_calls [OF that, of E "locals0 query" ?tr0]
    by (simp add: run render_def locals0_def)
  show "\<exists>L. inspect_choices E (choices response) (locals0 query) ?tr0 = (Inr L, tr') \<and>
             final_text L = plain_texts (choices response) \<and>
             out = join [CHR 0x0A] (map the (filter (\<lambda>t. t \<noteq> None) (final_text L)))"
    if ret: "process_query E self query tr = (Inr out, tr')" for out tr'
  proof -
    obtain r1 tr1 where sub: "inspect_choices E (choices response) (locals0 query) ?tr0 = (r1, tr1)"
      by (cases "inspect_choices E (choices response) (locals0 query) ?tr0")
    with ret run obtain L where L: "r1 = Inr L" "tr1 = tr'" "out = render (final_text L)"
      by (cases r1) auto
    from sub L inspect_choices_returns
    have "L = (locals0 query)\<lparr>final_text := final_text (locals0 query) @ plain_texts (choices response)\<rparr>"
      by blast
    then have "final_text L = plain_texts (choices response)"
      by (simp add: locals0_def)
    with sub L show ?thesis by (simp add: render_def)
  qed
  show "process_query E self query tr = (Inr [], ?tr0)"
    if "choices response = [ch] \<and> msg_role (choice_message ch) = ''assistant'' \<and>
        \<not> truthy_calls (msg_tool_calls (choice_message ch)) \<and>
        msg_content (choice_message ch) = Attr None" for ch
    using that plain_run [OF assms, of ch None] by simp
qed

theorem none_entries_dropped_witness:
  "process_query
     (scripted [add_tool]
        [Inr (Completion
                [Choice \<lparr>msg_role = ''assistant'', msg_content = Attr (Some ''a''),
                         msg_tool_calls = None\<rparr>,
                 Choice \<lparr>msg_role = ''assistant'', msg_content = Attr None,
                         msg_tool_calls = None\<rparr>,
                 Choice \<lparr>msg_role = ''assistant'', msg_content = Attr (Some ''b''),
                         msg_tool_calls = Some []\<rparr>])])
     connected ''q'' [] =
     (Inr (''a'' @ [CHR 0x0A] @ ''b''), [EvListTools, first_request ''q'' [add_tool]]) \<and>
   process_query (scripted [add_tool] [Inr (plain None)]) connected ''q'' [] =
     (Inr [], [EvListTools, first_request ''q'' [add_tool]])"
proof -
  let ?r3 = "Completion
                [Choice \<lparr>msg_role = ''assistant'', msg_content = Attr (Some ''a''),
                         msg_tool_calls = None\<rparr>,
                 Choice \<lparr>msg_role = ''assistant'', msg_content = Attr None,
                         msg_tool_calls = None\<rparr>,
                 Choice \<lparr>msg_role = ''assistant'', msg_content = Attr (Some ''b''),
                         msg_tool_calls = Some []\<rparr>]"
  let ?ch = "Choice \<lparr>msg_role = ''assistant'', msg_content = Attr None, msg_tool_calls = None\<rparr>"
  have none3: "requested_calls (choices ?r3) = []" by simp
  have l3: "list_tools (scripted [add_tool] [Inr ?r3]) ([] @ [EvListTools]) = Inr [add_tool]"
    by (rule scripted_list_tools)
  have c3: "create (scripted [add_tool] [Inr ?r3])
              ([] @ [EvListTools, first_request ''q'' [add_tool]]) = Inr ?r3"
    by (rule scripted_first_create)
  from none_entries_dropped [OF connected_session l3 c3] none3
  have first: "process_query (scripted [add_tool] [Inr ?r3]) connected ''q'' [] =
                 (Inr (''a'' @ [CHR 0x0A] @ ''b''), [EvListTools, first_request ''q'' [add_tool]])"
    by simp
  have h: "choices (plain None) = [?ch] \<and> msg_role (choice_message ?ch) = ''assistant'' \<and>
           \<not> truthy_calls (msg_tool_calls (choice_message ?ch)) \<and>
           msg_content (choice_message ?ch) = Attr None"
    by (simp add: plain_def)
  have l1: "list_tools (scripted [add_tool] [Inr (plain None)]) ([] @ [EvListTools]) =
              Inr [add_tool]"
    by (rule scripted_list_tools)
  have c1: "create (scripted [add_tool] [Inr (plain None)])
              ([] @ [EvListTools, first_request ''q'' [add_tool]]) = Inr (plain None)"
    by (rule scripted_first_create)
  from none_entries_dropped [OF connected_session l1 c1] h
  have second: "process_query (scripted [add_tool] [Inr (plain None)]) connected ''q'' [] =
                  (Inr [], [EvListTools, first_request ''q'' [add_tool]])"
    by simp
  from first second show ?thesis by simp
qed

subsection \<open>The interactive loop and the connection\<close>

text \<open>
  Claim C7, as the code has it. When \<open>process_query\<close> raises in a round of the loop,
  an exception that is an instance of \<open>Exception\<close> is caught and reported (as a
  decoding error when it is a \<open>UnicodeDecodeError\<close>), and the loop goes on to the next
  line; an exception outside \<open>Exception\<close> is not caught and ends \<open>chat_loop\<close>.
\<close>

theorem caught_when_Exception:
  assumes "py_lower (py_strip line) \<noteq> ''quit''"
    and "process_query E self (py_strip line) (tr @ [EvInput prompt]) = (Inl e, tr2)"
  shows "chat_rounds E self (line # rest) tr =
           (if is_Exception e then chat_rounds E self rest (tr2 @ [EvPrint (report e)])
            else (Inl e, tr2))"
  using assms
  by (auto simp: prompt_def report_def Let_def dest: UnicodeDecodeError_is_Exception)

theorem caught_when_Exception_witness:
  "chat_rounds (scripted [add_tool] [Inl (OtherError ''boom'')]) connected [''hello'', ''quit''] [] =
     (Inr (), [EvInput prompt, EvListTools, first_request ''hello'' [add_tool],
               EvPrint ''Error: boom'', EvInput prompt])"
proof -
  let ?E = "scripted [add_tool] [Inl (OtherError ''boom'')]"
  have strip: "py_strip ''hello'' = ''hello''"
    by (simp add: py_strip_def py_isspace_def)
  have h1: "py_lower (py_strip ''hello'') \<noteq> ''quit''"
    by (simp add: strip py_lower_def)
  have h2: "process_query ?E connected (py_strip ''hello'') ([] @ [EvInput prompt]) =
              (Inl (OtherError ''boom''), [EvInput prompt, EvListTools, first_request ''hello'' [add_tool]])"
    by (simp add: strip prompt_def run_defs)
  from caught_when_Exception [OF h1 h2, of "[''quit'']"]
  show ?thesis
    by (simp add: report_def prompt_def py_strip_def py_isspace_def py_lower_def py_lower_char_def)
qed

text \<open>
  Claim C7, as the specification words it, fails for the exceptions that are not
  instances of \<open>Exception\<close>. The user interrupts the first query while the completion
  request is under way: the \<open>KeyboardInterrupt\<close> leaves \<open>chat_loop\<close>, nothing is
  reported, and the second line is never read.
\<close>

theorem interrupt_ends_chat_loop:
  "chat_loop (scripted [add_tool] [Inl KeyboardInterrupt]) connected [''hello'', ''quit''] [] =
     (Inl KeyboardInterrupt,
      [EvPrint (CHR 0x0A # ''MCP Client Started!''),
       EvPrint ''Type your queries or 'quit' to exit.'',
       EvInput prompt, EvListTools, first_request ''hello'' [add_tool]])"
  by (simp add: chat_loop_def py_strip_def py_isspace_def py_lower_def py_lower_char_def
      prompt_def run_defs)

text \<open>
  Claim C8. A line that, with the whitespace around it removed, is the word \<open>quit\<close> in
  any letter case ends the loop at once and without error: nothing but the prompt is
  added to the trace, so \<open>process_query\<close> is not run, and the lines after it are not
  read. Any other line, stripped, is passed to \<open>process_query\<close> as the query, and the
  loop goes on from what that call leaves.
\<close>

theorem quit_ends_loop:
  "chat_rounds E self (line # rest) tr =
     (if quit_word (py_strip line) then (Inr (), tr @ [EvInput prompt])
      else case process_query E self (py_strip line) (tr @ [EvInput prompt]) of
             (Inr response, tr2) \<Rightarrow>
               chat_rounds E self rest (tr2 @ [EvPrint (CHR 0x0A # response)])
           | (Inl e, tr2) \<Rightarrow>
               if is_Exception e then chat_rounds E self rest (tr2 @ [EvPrint (report e)])
               else (Inl e, tr2))"
  by (auto simp: py_lower_quit prompt_def report_def Let_def
      dest: UnicodeDecodeError_is_Exception split: prod.splits sum.splits)

theorem quit_ends_loop_witness:
  "quit_word (py_strip ('' QuIt'' @ [CHR 0x09, CHR '' ''])) \<and>
   chat_rounds (scripted [add_tool] []) connected [('' QuIt'' @ [CHR 0x09, CHR '' '']), ''next''] [] =
     (Inr (), [EvInput prompt])"
proof -
  have q: "quit_word (py_strip ('' QuIt'' @ [CHR 0x09, CHR '' '']))"
    by (simp add: quit_word_def same_letter_def py_strip_def py_isspace_def)
  with quit_ends_loop [of "scripted [add_tool] []" connected "'' QuIt'' @ [CHR 0x09, CHR '' '']"
                          "[''next'']" "[]"]
  show ?thesis by simp
qed

text \<open>
  Claim C9. For a path that ends neither in \<open>.py\<close> nor in \<open>.js\<close>, \<open>connect_to_server\<close>
  raises the \<open>ValueError\<close> with nothing added to the trace (no process started, no
  session opened) and with the fields of the client as they were.
\<close>

theorem connect_rejects_other_suffix:
  assumes "\<not> endswith server_script_path ''.py''"
    and "\<not> endswith server_script_path ''.js''"
  shows "connect_to_server E server_script_path self tr =
           (Inl (ValueError ''Server script must be a .py or .js file''), self, tr)"
  using assms by (simp add: connect_to_server_def)

theorem connect_rejects_other_suffix_witness:
  "connect_to_server (scripted [add_tool] []) ''server.rb'' disconnected [] =
     (Inl (ValueError ''Server script must be a .py or .js file''), disconnected, [])"
proof -
  have h1: "\<not> endswith ''server.rb'' ''.py''" by (simp add: endswith_def)
  have h2: "\<not> endswith ''server.rb'' ''.js''" by (simp add: endswith_def)
  show ?thesis by (rule connect_rejects_other_suffix [OF h1 h2])
qed

end
